theory Spec2Isabelle
  imports Main
begin

section \<open>conda compare: data model\<close>

text \<open>
  The development follows \<^verbatim>\<open>conda/cli/main_compare.py\<close>. A \<^typ>\<open>char\<close> stands for one
  character of a Python \<^verbatim>\<open>str\<close>; the texts covered are those whose characters lie below
  256.
\<close>

text \<open>
  The three attributes of an installed package record that \<^verbatim>\<open>compare_packages\<close> reads.
\<close>

record PackageRecord =
  name :: string
  version :: string
  build :: string

text \<open>
  Exceptions raised on the paths modelled here. \<^verbatim>\<open>InvalidMatchSpec\<close> carries the text
  that could not be parsed, \<^verbatim>\<open>FileNotFoundError\<close> the path, \<^verbatim>\<open>SystemExit\<close> the status.
\<close>

datatype error =
    InvalidMatchSpec string
  | SystemExit int
  | CalledProcessError
  | UnicodeDecodeError
  | FileNotFoundError string

text \<open>
  \<^verbatim>\<open>compare_packages\<close> imports \<^verbatim>\<open>MatchSpec\<close> from \<^verbatim>\<open>conda/models/match_spec.py\<close>, a module
  that is not included here. Of a parsed specification the function uses the attribute
  \<^verbatim>\<open>name\<close> and the method \<^verbatim>\<open>match\<close>; the constructor itself is a parameter
  \<open>MatchSpec :: string \<Rightarrow> error + match_spec\<close> of every definition below, \<open>Inl\<close> being
  the exception it raises on text it cannot parse.
\<close>

record match_spec =
  spec_name :: string
  spec_match :: "PackageRecord \<Rightarrow> bool"

section \<open>compare_packages\<close>

definition success_message :: string where
  "success_message =
     ''Success. All the packages in the '' @
     ''specification file are present in the environment '' @
     ''with matching version and build string.''"

text \<open>The two f-strings appended to \<^verbatim>\<open>output\<close>.\<close>

definition mismatch_line :: "string \<Rightarrow> string \<Rightarrow> PackageRecord \<Rightarrow> string" where
  "mismatch_line nm pkg active_pkg =
     nm @ '' found but mismatch. Specification pkg: '' @ pkg @ '', '' @
     ''Running pkg: '' @ name active_pkg @ ''=='' @ version active_pkg @ ''='' @ build active_pkg"

definition not_found_line :: "string \<Rightarrow> string" where
  "not_found_line nm = nm @ '' not found''"

text \<open>
  The \<^verbatim>\<open>for pkg in specification_pkgs\<close> loop, with the two mutable locals \<^verbatim>\<open>miss\<close> and
  \<^verbatim>\<open>output\<close> threaded through. An exception of the constructor leaves the loop at once.
\<close>

fun compare_loop ::
  "(string \<Rightarrow> error + match_spec) \<Rightarrow> (string \<rightharpoonup> PackageRecord) \<Rightarrow> string list \<Rightarrow>
     bool \<Rightarrow> string list \<Rightarrow> error + (bool \<times> string list)" where
  "compare_loop MatchSpec active_pkgs [] miss output = Inr (miss, output)"
| "compare_loop MatchSpec active_pkgs (pkg # rest) miss output =
     (case MatchSpec pkg of
        Inl e \<Rightarrow> Inl e
      | Inr pkg_spec \<Rightarrow>
          (case active_pkgs (spec_name pkg_spec) of
             Some active_pkg \<Rightarrow>
               if \<not> spec_match pkg_spec active_pkg
               then compare_loop MatchSpec active_pkgs rest True
                      (output @ [mismatch_line (spec_name pkg_spec) pkg active_pkg])
               else compare_loop MatchSpec active_pkgs rest miss output
           | None \<Rightarrow>
               compare_loop MatchSpec active_pkgs rest True
                 (output @ [not_found_line (spec_name pkg_spec)])))"

definition compare_packages ::
  "(string \<Rightarrow> error + match_spec) \<Rightarrow> (string \<rightharpoonup> PackageRecord) \<Rightarrow> string list \<Rightarrow>
     error + (int \<times> string list)" where
  "compare_packages MatchSpec active_pkgs specification_pkgs =
     (case compare_loop MatchSpec active_pkgs specification_pkgs False [] of
        Inl e \<Rightarrow> Inl e
      | Inr (miss, output) \<Rightarrow>
          Inr (if miss then 1 else 0,
               if \<not> miss then output @ [success_message] else output))"

text \<open>
  The dictionary comprehension of \<^verbatim>\<open>execute\<close> that builds the inventory from the records
  the prefix lists: \<^verbatim>\<open>{pkg.name: pkg for pkg in get_packages(prefix)}\<close>. A later record
  replaces an earlier one of the same name.
\<close>

definition active_pkgs_of :: "PackageRecord list \<Rightarrow> (string \<rightharpoonup> PackageRecord)" where
  "active_pkgs_of pkgs = fold (\<lambda>pkg m. m(name pkg \<mapsto> pkg)) pkgs Map.empty"

subsection \<open>A concrete constructor for the examples\<close>

fun split_on :: "char \<Rightarrow> string \<Rightarrow> string list" where
  "split_on sep [] = [[]]"
| "split_on sep (c # cs) =
     (if c = sep then [] # split_on sep cs
      else (case split_on sep cs of
              [] \<Rightarrow> [[c]]
            | w # ws \<Rightarrow> (c # w) # ws))"

definition field_matches :: "string \<Rightarrow> string \<Rightarrow> bool" where
  "field_matches constraint v = (constraint = ''*'' \<or> constraint = v)"

text \<open>
  Modelled from the spec: the constructor \<^verbatim>\<open>MatchSpec\<close> and its \<^verbatim>\<open>match\<close> are missing from
  the sources. The spec describes an entry as a name followed by optional version and
  build constraints (its examples are \<^verbatim>\<open>numpy=1.2=0\<close> and \<^verbatim>\<open>flask\<close>), satisfied by a record
  iff its version and build strings equal the constraint or the constraint is absent or a
  wildcard; text that is not of this form is a parse error attributed to the entry. This
  constructor instantiates the parameter in the examples only.
\<close>

definition simple_MatchSpec :: "string \<Rightarrow> error + match_spec" where
  "simple_MatchSpec pkg =
     (case split_on CHR ''='' pkg of
        [n] \<Rightarrow>
          if n = [] then Inl (InvalidMatchSpec pkg)
          else Inr \<lparr>spec_name = n, spec_match = (\<lambda>r. True)\<rparr>
      | [n, v] \<Rightarrow>
          if n = [] then Inl (InvalidMatchSpec pkg)
          else Inr \<lparr>spec_name = n, spec_match = (\<lambda>r. field_matches v (version r))\<rparr>
      | [n, v, b] \<Rightarrow>
          if n = [] then Inl (InvalidMatchSpec pkg)
          else Inr \<lparr>spec_name = n,
                    spec_match = (\<lambda>r. field_matches v (version r) \<and> field_matches b (build r))\<rparr>
      | _ \<Rightarrow> Inl (InvalidMatchSpec pkg))"

definition numpy_record :: PackageRecord where
  "numpy_record = \<lparr>name = ''numpy'', version = ''1.2'', build = ''0''\<rparr>"

definition requests_record :: PackageRecord where
  "requests_record = \<lparr>name = ''requests'', version = ''2.0'', build = ''0''\<rparr>"

definition example_inventory :: "string \<rightharpoonup> PackageRecord" where
  "example_inventory = active_pkgs_of [numpy_record, requests_record]"

subsection \<open>The verdicts of the specification\<close>

text \<open>
  The specification's reading of one entry, in its own words: an entry whose name is not a
  key of the inventory is \<open>Missing\<close>, explained by \<^verbatim>\<open><name> not found\<close>; an entry whose name
  is a key but whose predicate rejects the record stored there is \<open>Mismatched\<close>, explained by
  a line with the specification text and the installed \<^verbatim>\<open>name==version=build\<close>; any other
  entry is \<open>Matched\<close> and passes silently. These definitions are what \<^const>\<open>compare_packages\<close>
  is compared with below.
\<close>

datatype verdict = Matched | Mismatched string | Missing string

definition spec_verdict :: "(string \<rightharpoonup> PackageRecord) \<Rightarrow> string \<Rightarrow> match_spec \<Rightarrow> verdict" where
  "spec_verdict I s sp =
     (case I (spec_name sp) of
        None \<Rightarrow> Missing (spec_name sp @ '' not found'')
      | Some r \<Rightarrow>
          if spec_match sp r then Matched
          else Mismatched (spec_name sp @ '' found but mismatch. Specification pkg: '' @ s @
                 '', Running pkg: '' @ name r @ ''=='' @ version r @ ''='' @ build r))"

fun explanation :: "verdict \<Rightarrow> string option" where
  "explanation Matched = None"
| "explanation (Mismatched l) = Some l"
| "explanation (Missing l) = Some l"

definition spec_entry_line ::
  "(string \<Rightarrow> error + match_spec) \<Rightarrow> (string \<rightharpoonup> PackageRecord) \<Rightarrow> string \<Rightarrow> string option" where
  "spec_entry_line MatchSpec I s =
     (case MatchSpec s of Inl e \<Rightarrow> None | Inr sp \<Rightarrow> explanation (spec_verdict I s sp))"

text \<open>The explanation lines of a list of entries, one per failing entry, in list order.\<close>

definition spec_explanations ::
  "(string \<Rightarrow> error + match_spec) \<Rightarrow> (string \<rightharpoonup> PackageRecord) \<Rightarrow> string list \<Rightarrow> string list" where
  "spec_explanations MatchSpec I S = List.map_filter (spec_entry_line MatchSpec I) S"

text \<open>An entry fails when its verdict is not \<open>Matched\<close>.\<close>

definition failing ::
  "(string \<Rightarrow> error + match_spec) \<Rightarrow> (string \<rightharpoonup> PackageRecord) \<Rightarrow> string \<Rightarrow> bool" where
  "failing MatchSpec I s = (spec_entry_line MatchSpec I s \<noteq> None)"

text \<open>A list of entries is well formed when the constructor accepts each of them.\<close>

definition well_formed :: "(string \<Rightarrow> error + match_spec) \<Rightarrow> string list \<Rightarrow> bool" where
  "well_formed MatchSpec S = (\<forall>e \<in> set S. \<not> isl (MatchSpec e))"


section \<open>display_table\<close>

text \<open>
  The format specification \<^verbatim>\<open><w\<close> of an f-string field: the text followed by blanks up to
  the width \<open>w\<close>, and unchanged when it is already that long.
\<close>

definition ljust :: "nat \<Rightarrow> string \<Rightarrow> string" where
  "ljust w s = s @ replicate (w - length s) CHR '' ''"

definition startswith :: "string \<Rightarrow> string \<Rightarrow> bool" where
  "startswith s p = (take (length p) s = p)"

text \<open>
  \<^verbatim>\<open>str.splitlines()\<close>: the line boundaries among the characters below 256 are line feed,
  vertical tab, form feed, carriage return, the file, group and record separators and
  next line; a carriage return followed by a line feed is one boundary. The boundaries
  are not part of the lines, and no empty line is reported after the last boundary.
\<close>

definition is_linebreak :: "char \<Rightarrow> bool" where
  "is_linebreak c =
     (c = CHR 0x0A \<or> c = CHR 0x0B \<or> c = CHR 0x0C \<or> c = CHR 0x0D \<or>
      c = CHR 0x1C \<or> c = CHR 0x1D \<or> c = CHR 0x1E \<or> c = CHR 0x85)"

fun splitlines_from :: "string \<Rightarrow> string \<Rightarrow> string list" where
  "splitlines_from cur [] = (if cur = [] then [] else [cur])"
| "splitlines_from cur [c] = (if is_linebreak c then [cur] else [cur @ [c]])"
| "splitlines_from cur (c # d # cs) =
     (if c = CHR 0x0D \<and> d = CHR 0x0A then cur # splitlines_from [] cs
      else if is_linebreak c then cur # splitlines_from [] (d # cs)
      else splitlines_from (cur @ [c]) (d # cs))"

definition splitlines :: "string \<Rightarrow> string list" where
  "splitlines s = splitlines_from [] s"

text \<open>The escape character that opens the colour sequences \<^verbatim>\<open>\033[41m\<close>, \<^verbatim>\<open>\033[44m\<close>, \<^verbatim>\<open>\033[0m\<close>.\<close>

definition esc :: char where
  "esc = CHR 0x1B"

text \<open>The two f-strings printed for a marked line.\<close>

definition present_absent_row :: "string \<Rightarrow> string" where
  "present_absent_row package =
     esc # ''[41m'' @ ljust 40 package @ '' '' @ ljust 20 ''Present'' @ '' '' @
     ljust 20 ''Absent'' @ esc # ''[0m''"

definition absent_present_row :: "string \<Rightarrow> string" where
  "absent_present_row package =
     esc # ''[44m'' @ ljust 40 package @ '' '' @ ljust 20 ''Absent'' @ '' '' @
     ljust 20 ''Present'' @ esc # ''[0m''"

text \<open>
  The \<^verbatim>\<open>for line in diff_output.splitlines()\<close> loop. Standard output is the list of the
  texts printed so far, one per call of \<^verbatim>\<open>print\<close>; \<^verbatim>\<open>line[2:]\<close> is \<open>drop 2\<close>, which on a
  line shorter than two characters is the empty text, as the slice is.
\<close>

fun display_rows :: "string list \<Rightarrow> string list \<Rightarrow> string list" where
  "display_rows [] out = out"
| "display_rows (line # lines) out =
     (if startswith line ''<'' then
        (let package = drop 2 line
         in display_rows lines (out @ [present_absent_row package]))
      else if startswith line ''>'' then
        (let package = drop 2 line
         in display_rows lines (out @ [absent_present_row package]))
      else display_rows lines out)"

definition display_table :: "string \<Rightarrow> string \<Rightarrow> string \<Rightarrow> string list \<Rightarrow> string list" where
  "display_table diff_output env1 env2 out =
     (let out1 = out @ [CHR 0x0A # ''Package Differences:'' @ [CHR 0x0A]];
          out2 = out1 @ [ljust 40 ''Package'' @ '' '' @ ljust 20 env1 @ '' '' @ ljust 20 env2];
          out3 = out2 @ [ljust 40 ''-------'' @ '' '' @ ljust 20 ''----'' @ '' '' @
                         ljust 20 ''----'']
      in display_rows (splitlines diff_output) out3)"

subsection \<open>The report of the specification\<close>

text \<open>
  The specification's report: a row is a package label with its presence in the first and
  in the second environment. A line starting with \<^verbatim>\<open><\<close> gives the row of the line less its
  two-character marker, present in the first and absent in the second; a line starting
  with \<^verbatim>\<open>>\<close> gives the row absent in the first and present in the second; any other line
  gives no row. Rows follow the order of the lines, and nothing is merged.
\<close>

datatype presence = Present | Absent

type_synonym row = "string \<times> presence \<times> presence"

definition spec_row :: "string \<Rightarrow> row option" where
  "spec_row line =
     (case line of
        [] \<Rightarrow> None
      | c # rest \<Rightarrow>
          if c = CHR ''<'' then Some (drop 2 line, Present, Absent)
          else if c = CHR ''>'' then Some (drop 2 line, Absent, Present)
          else None)"

definition spec_rows :: "string list \<Rightarrow> row list" where
  "spec_rows lines = List.map_filter spec_row lines"

definition marked :: "string \<Rightarrow> bool" where
  "marked line = (startswith line ''<'' \<or> startswith line ''>'')"

text \<open>The printed form of a row: colour, three fields of widths 40, 20 and 20, reset.\<close>

fun presence_text :: "presence \<Rightarrow> string" where
  "presence_text Present = ''Present''"
| "presence_text Absent = ''Absent''"

fun render_row :: "row \<Rightarrow> string" where
  "render_row (package, a, b) =
     esc # (if a = Present then ''[41m'' else ''[44m'') @ ljust 40 package @ '' '' @
     ljust 20 (presence_text a) @ '' '' @ ljust 20 (presence_text b) @ esc # ''[0m''"

definition header :: "string \<Rightarrow> string \<Rightarrow> string list" where
  "header env1 env2 =
     [CHR 0x0A # ''Package Differences:'' @ [CHR 0x0A],
      ljust 40 ''Package'' @ '' '' @ ljust 20 env1 @ '' '' @ ljust 20 env2,
      ljust 40 ''-------'' @ '' '' @ ljust 20 ''----'' @ '' '' @ ljust 20 ''----'']"

definition example_diff :: string where
  "example_diff =
     ''1c1'' @ [CHR 0x0A] @ ''< foo-1.0'' @ [CHR 0x0A] @ ''---'' @ [CHR 0x0A] @
     ''> foo-1.0'' @ [CHR 0x0A]"


section \<open>compare_envs\<close>

text \<open>
  The working directory, as the names of its files with their contents, and the texts
  printed on standard output.
\<close>

record world =
  files :: "string \<rightharpoonup> string"
  stdout :: "string list"

text \<open>
  What the machine outside the program answers: the exit status of \<^verbatim>\<open>which diff\<close>; the path
  of \<^verbatim>\<open>conda.sh\<close> that \<^verbatim>\<open>find_conda_setup\<close> derives from \<^verbatim>\<open>which conda\<close>, or the exception of
  \<^verbatim>\<open>check_output\<close>; the effect of the shell command of \<^verbatim>\<open>os.system\<close> on the working
  directory; and the decoded standard output of \<^verbatim>\<open>diff\<close> on the contents of the two files
  (\<open>None\<close> for a file that does not exist), or the exception raised by \<^verbatim>\<open>subprocess.run\<close>
  or by \<^verbatim>\<open>decode\<close>.
\<close>

record host =
  which_diff :: int
  find_conda_setup :: "error + string"
  os_system :: "string \<Rightarrow> (string \<rightharpoonup> string) \<Rightarrow> (string \<rightharpoonup> string)"
  run_diff :: "string option \<Rightarrow> string option \<Rightarrow> error + string"

definition check_diff_installed :: "host \<Rightarrow> world \<Rightarrow> (error + unit) \<times> world" where
  "check_diff_installed h w =
     (if which_diff h \<noteq> 0 then
        (Inl (SystemExit 1),
         w\<lparr>stdout := stdout w @
              [''diff command could not be found. Please install it to proceed.'']\<rparr>)
      else (Inr (), w))"

text \<open>\<^verbatim>\<open>os.remove\<close> raises \<^verbatim>\<open>FileNotFoundError\<close> on a path that does not exist.\<close>

definition os_remove :: "string \<Rightarrow> world \<Rightarrow> error + world" where
  "os_remove path w =
     (if files w path = None then Inl (FileNotFoundError path)
      else Inr (w\<lparr>files := (files w)(path := None)\<rparr>))"

text \<open>
  \<^verbatim>\<open>compare_envs\<close>, statement by statement. There is no \<^verbatim>\<open>try\<close> in the function: an exception
  of any step ends it there, with the world as that step left it.
\<close>

definition compare_envs :: "host \<Rightarrow> string \<Rightarrow> string \<Rightarrow> world \<Rightarrow> (error + unit) \<times> world" where
  "compare_envs h env1 env2 w =
     (case check_diff_installed h w of
        (Inl e, w0) \<Rightarrow> (Inl e, w0)
      | (Inr u, w0) \<Rightarrow>
     (case find_conda_setup h of
        Inl e \<Rightarrow> (Inl e, w0)
      | Inr conda_setup \<Rightarrow>
     (let command =
            ''source '' @ conda_setup @ '' && conda activate '' @ env1 @
            '' && conda list > env1_packages.txt && conda activate '' @ env2 @
            '' && conda list > env2_packages.txt && conda deactivate'';
          w1 = w0\<lparr>files := os_system h command (files w0)\<rparr>
      in
     (case run_diff h (files w1 ''env1_packages.txt'') (files w1 ''env2_packages.txt'') of
        Inl e \<Rightarrow> (Inl e, w1)
      | Inr diff_output \<Rightarrow>
     (let w2 = w1\<lparr>stdout := display_table diff_output env1 env2 (stdout w1)\<rparr>
      in
     (case os_remove ''env1_packages.txt'' w2 of
        Inl e \<Rightarrow> (Inl e, w2)
      | Inr w3 \<Rightarrow>
     (case os_remove ''env2_packages.txt'' w3 of
        Inl e \<Rightarrow> (Inl e, w3)
      | Inr w4 \<Rightarrow> (Inr (), w4))))))))"

text \<open>
  A machine on which \<^verbatim>\<open>diff\<close> and \<^verbatim>\<open>conda\<close> are installed, the shell command writes the two
  package lists, and the output of \<^verbatim>\<open>diff\<close> is not valid UTF-8, so that \<^verbatim>\<open>decode\<close> raises.
\<close>

definition undecodable_host :: host where
  "undecodable_host =
     \<lparr>which_diff = 0,
      find_conda_setup = Inr ''/opt/conda/etc/profile.d/conda.sh'',
      os_system = (\<lambda>command fs. fs(''env1_packages.txt'' \<mapsto> ''foo 1.0'',
                                     ''env2_packages.txt'' \<mapsto> ''bar 2.0'')),
      run_diff = (\<lambda>a b. Inl UnicodeDecodeError)\<rparr>"

text \<open>The same machine with a \<^verbatim>\<open>diff\<close> whose output decodes.\<close>

definition plain_host :: host where
  "plain_host = undecodable_host\<lparr>run_diff := (\<lambda>a b. Inr example_diff)\<rparr>"

definition empty_world :: world where
  "empty_world = \<lparr>files = Map.empty, stdout = []\<rparr>"


section \<open>Properties of compare_packages\<close>

lemma compare_loop_all_matched:
  "\<forall>e \<in> set S. \<exists>sp r. MatchSpec e = Inr sp \<and> I (spec_name sp) = Some r \<and> spec_match sp r \<Longrightarrow>
     compare_loop MatchSpec I S miss out = Inr (miss, out)"
  by (induction S arbitrary: miss out) auto

lemma simple_MatchSpec_numpy:
  "simple_MatchSpec ''numpy=1.2=0'' =
     Inr \<lparr>spec_name = ''numpy'',
          spec_match = (\<lambda>r. field_matches ''1.2'' (version r) \<and> field_matches ''0'' (build r))\<rparr>"
  by (simp add: simple_MatchSpec_def)

lemma simple_MatchSpec_flask:
  "simple_MatchSpec ''flask'' = Inr \<lparr>spec_name = ''flask'', spec_match = (\<lambda>r. True)\<rparr>"
  by (simp add: simple_MatchSpec_def)

lemma example_inventory_numpy: "example_inventory ''numpy'' = Some numpy_record"
  by (simp add: example_inventory_def active_pkgs_of_def numpy_record_def requests_record_def)

lemma example_inventory_flask: "example_inventory ''flask'' = None"
  by (simp add: example_inventory_def active_pkgs_of_def numpy_record_def requests_record_def)

text \<open>
  C1. When every entry of the specification list parses to a name that is a key of the
  inventory and the record stored there satisfies the entry's predicate,
  \<^verbatim>\<open>compare_packages\<close> returns the outcome code 0 and an output of exactly one line, the
  success message.
\<close>

theorem compare_packages_all_matched:
  assumes "\<forall>e \<in> set S. \<exists>sp r. MatchSpec e = Inr sp \<and> I (spec_name sp) = Some r \<and> spec_match sp r"
  shows "compare_packages MatchSpec I S = Inr (0, [success_message])"
  using compare_loop_all_matched [OF assms, of False "[]"]
  by (simp add: compare_packages_def)

theorem compare_packages_all_matched_witness:
  "compare_packages simple_MatchSpec example_inventory [''numpy=1.2=0''] =
     Inr (0, [success_message])"
proof -
  have "\<forall>e \<in> set [''numpy=1.2=0''].
          \<exists>sp r. simple_MatchSpec e = Inr sp \<and> example_inventory (spec_name sp) = Some r
                 \<and> spec_match sp r"
    by (simp add: simple_MatchSpec_numpy example_inventory_numpy numpy_record_def
          field_matches_def)
  then show ?thesis by (rule compare_packages_all_matched)
qed

subsection \<open>The loop computes the explanations of the specification\<close>

lemma compare_loop_well_formed:
  "well_formed MatchSpec S \<Longrightarrow>
     compare_loop MatchSpec I S miss out =
       Inr (miss \<or> spec_explanations MatchSpec I S \<noteq> [], out @ spec_explanations MatchSpec I S)"
proof (induction S arbitrary: miss out)
  case Nil
  then show ?case by (simp add: spec_explanations_def)
next
  case (Cons pkg rest)
  from Cons.prems obtain sp where sp: "MatchSpec pkg = Inr sp"
    by (cases "MatchSpec pkg") (auto simp: well_formed_def)
  from Cons.prems have rest: "well_formed MatchSpec rest"
    by (simp add: well_formed_def)
  show ?case
  proof (cases "I (spec_name sp)")
    case None
    then show ?thesis
      using sp Cons.IH [OF rest]
      by (simp add: spec_explanations_def spec_entry_line_def spec_verdict_def not_found_line_def)
  next
    case (Some r)
    then show ?thesis
      using sp Cons.IH [OF rest]
      by (simp add: spec_explanations_def spec_entry_line_def spec_verdict_def mismatch_line_def)
  qed
qed

lemma compare_packages_well_formed:
  "well_formed MatchSpec S \<Longrightarrow>
     compare_packages MatchSpec I S =
       Inr (if spec_explanations MatchSpec I S = [] then 0 else 1,
            if spec_explanations MatchSpec I S = [] then [success_message]
            else spec_explanations MatchSpec I S)"
  by (simp add: compare_packages_def compare_loop_well_formed)

lemma compare_loop_parse_error:
  "well_formed MatchSpec pre \<Longrightarrow> MatchSpec e = Inl err \<Longrightarrow>
     compare_loop MatchSpec I (pre @ e # post) miss out = Inl err"
proof (induction pre arbitrary: miss out)
  case Nil
  then show ?case by simp
next
  case (Cons pkg rest)
  from Cons.prems obtain sp where sp: "MatchSpec pkg = Inr sp"
    by (cases "MatchSpec pkg") (auto simp: well_formed_def)
  from Cons.prems have "well_formed MatchSpec rest"
    by (simp add: well_formed_def)
  with Cons show ?case
    using sp by (simp split: option.split)
qed

lemma compare_packages_parse_error:
  "well_formed MatchSpec pre \<Longrightarrow> MatchSpec e = Inl err \<Longrightarrow>
     compare_packages MatchSpec I (pre @ e # post) = Inl err"
  by (simp add: compare_packages_def compare_loop_parse_error)

lemma first_malformed:
  "\<not> well_formed MatchSpec S \<Longrightarrow>
     \<exists>pre e err post. S = pre @ e # post \<and> well_formed MatchSpec pre \<and> MatchSpec e = Inl err"
proof (induction S)
  case Nil
  then show ?case by (simp add: well_formed_def)
next
  case (Cons pkg rest)
  show ?case
  proof (cases "MatchSpec pkg")
    case (Inl err)
    then have "pkg # rest = [] @ pkg # rest \<and> well_formed MatchSpec [] \<and> MatchSpec pkg = Inl err"
      by (simp add: well_formed_def)
    then show ?thesis by blast
  next
    case (Inr sp)
    with Cons.prems have "\<not> well_formed MatchSpec rest"
      by (simp add: well_formed_def)
    from Cons.IH [OF this] obtain pre e err post where
      "rest = pre @ e # post" "well_formed MatchSpec pre" "MatchSpec e = Inl err"
      by blast
    with Inr have "pkg # rest = (pkg # pre) @ e # post \<and> well_formed MatchSpec (pkg # pre)
        \<and> MatchSpec e = Inl err"
      by (simp add: well_formed_def)
    then show ?thesis by blast
  qed
qed

lemma compare_packages_returns_iff:
  "(\<exists>res. compare_packages MatchSpec I S = Inr res) \<longleftrightarrow> well_formed MatchSpec S"
proof
  assume ret: "\<exists>res. compare_packages MatchSpec I S = Inr res"
  show "well_formed MatchSpec S"
  proof (rule ccontr)
    assume "\<not> well_formed MatchSpec S"
    from first_malformed [OF this] obtain pre e err post where
      "S = pre @ e # post" "well_formed MatchSpec pre" "MatchSpec e = Inl err"
      by blast
    then have "compare_packages MatchSpec I S = Inl err"
      by (simp add: compare_packages_parse_error)
    with ret show False by simp
  qed
next
  assume "well_formed MatchSpec S"
  then show "\<exists>res. compare_packages MatchSpec I S = Inr res"
    by (simp add: compare_packages_well_formed)
qed

lemma spec_explanations_append:
  "spec_explanations MatchSpec I (S1 @ S2) =
     spec_explanations MatchSpec I S1 @ spec_explanations MatchSpec I S2"
  by (simp add: spec_explanations_def List.map_filter_def)

lemma length_spec_explanations:
  "length (spec_explanations MatchSpec I S) = length (filter (failing MatchSpec I) S)"
  by (induction S) (simp_all add: spec_explanations_def failing_def split: option.split)

lemma spec_explanations_empty_iff:
  "spec_explanations MatchSpec I S = [] \<longleftrightarrow> (\<forall>e \<in> set S. \<not> failing MatchSpec I e)"
  by (induction S) (simp_all add: spec_explanations_def failing_def split: option.split)

lemma spec_entry_line_in_explanations:
  "e \<in> set S \<Longrightarrow> spec_entry_line MatchSpec I e = Some l \<Longrightarrow> l \<in> set (spec_explanations MatchSpec I S)"
  by (force simp: spec_explanations_def List.map_filter_def)

subsection \<open>Runs of the examples\<close>

lemma simple_MatchSpec_numpy13:
  "simple_MatchSpec ''numpy=1.3=0'' =
     Inr \<lparr>spec_name = ''numpy'',
          spec_match = (\<lambda>r. field_matches ''1.3'' (version r) \<and> field_matches ''0'' (build r))\<rparr>"
  by (simp add: simple_MatchSpec_def)

lemma simple_MatchSpec_malformed:
  "simple_MatchSpec ''a=b=c=d'' = Inl (InvalidMatchSpec ''a=b=c=d'')"
  by (simp add: simple_MatchSpec_def)

lemma well_formed_examples:
  "well_formed simple_MatchSpec [''numpy=1.2=0'', ''flask'']"
  "well_formed simple_MatchSpec [''numpy=1.3=0'', ''flask'']"
  "well_formed simple_MatchSpec [''numpy=1.2=0'']"
  "well_formed simple_MatchSpec []"
  by (simp_all add: well_formed_def simple_MatchSpec_numpy simple_MatchSpec_flask
        simple_MatchSpec_numpy13)

lemma run_numpy_flask:
  "compare_packages simple_MatchSpec example_inventory [''numpy=1.2=0'', ''flask''] =
     Inr (1, [''flask not found''])"
  by (simp add: compare_packages_def simple_MatchSpec_numpy simple_MatchSpec_flask
        example_inventory_numpy example_inventory_flask numpy_record_def field_matches_def
        not_found_line_def)

lemma run_numpy13_flask:
  "compare_packages simple_MatchSpec example_inventory [''numpy=1.3=0'', ''flask''] =
     Inr (1, [''numpy found but mismatch. Specification pkg: numpy=1.3=0, Running pkg: numpy==1.2=0'',
              ''flask not found''])"
  by (simp add: compare_packages_def simple_MatchSpec_numpy13 simple_MatchSpec_flask
        example_inventory_numpy example_inventory_flask numpy_record_def field_matches_def
        not_found_line_def mismatch_line_def)

lemma run_flask_malformed:
  "compare_packages simple_MatchSpec example_inventory [''flask'', ''a=b=c=d''] =
     Inl (InvalidMatchSpec ''a=b=c=d'')"
  by (simp add: compare_packages_def simple_MatchSpec_malformed simple_MatchSpec_flask
        example_inventory_flask)

lemma run_numpy13_malformed:
  "compare_packages simple_MatchSpec example_inventory [''numpy=1.3=0'', ''a=b=c=d''] =
     Inl (InvalidMatchSpec ''a=b=c=d'')"
  by (simp add: compare_packages_def simple_MatchSpec_malformed simple_MatchSpec_numpy13
        example_inventory_numpy numpy_record_def field_matches_def)

subsection \<open>The inventory does not depend on the order of the records\<close>

lemma fold_update_map_of:
  "fold (\<lambda>pkg m. m(name pkg \<mapsto> pkg)) pkgs m0 =
     m0 ++ map_of (rev (map (\<lambda>pkg. (name pkg, pkg)) pkgs))"
proof (induction pkgs arbitrary: m0)
  case Nil
  then show ?case by simp
next
  case (Cons p ps)
  have "fold (\<lambda>pkg m. m(name pkg \<mapsto> pkg)) (p # ps) m0 =
        fold (\<lambda>pkg m. m(name pkg \<mapsto> pkg)) ps (m0(name p \<mapsto> p))"
    by simp
  also have "\<dots> = m0(name p \<mapsto> p) ++ map_of (rev (map (\<lambda>pkg. (name pkg, pkg)) ps))"
    by (rule Cons.IH)
  also have "\<dots> = m0 ++ map_of (rev (map (\<lambda>pkg. (name pkg, pkg)) (p # ps)))"
    by (rule ext) (simp add: map_add_def split: option.split)
  finally show ?case .
qed

lemma active_pkgs_of_map_of:
  "active_pkgs_of pkgs = map_of (rev (map (\<lambda>pkg. (name pkg, pkg)) pkgs))"
  by (simp add: active_pkgs_of_def fold_update_map_of)

lemma active_pkgs_of_permuted:
  assumes "distinct (map name rs)" and "distinct (map name rs')" and "set rs = set rs'"
  shows "active_pkgs_of rs = active_pkgs_of rs'"
proof -
  let ?g = "\<lambda>pkg::PackageRecord. (name pkg, pkg)"
  have d: "distinct (map fst (rev (map ?g rs)))" "distinct (map fst (rev (map ?g rs')))"
    using assms(1,2) by (simp_all add: rev_map [symmetric] comp_def)
  have "set (rev (map ?g rs)) = set (rev (map ?g rs'))"
    using assms(3) by simp
  with map_of_inject_set [OF d] show ?thesis
    by (simp add: active_pkgs_of_map_of)
qed

subsection \<open>No explanation line is the success line\<close>

lemma not_found_line_not_success: "nm @ '' not found'' \<noteq> success_message"
proof
  assume "nm @ '' not found'' = success_message"
  then have "last (nm @ '' not found'') = last success_message"
    by simp
  then show False by (simp add: success_message_def)
qed

lemma mismatch_line_not_success:
  "nm @ '' found but mismatch. Specification pkg: '' @ rest \<noteq> success_message"
proof
  assume "nm @ '' found but mismatch. Specification pkg: '' @ rest = success_message"
  then have "set (nm @ '' found but mismatch. Specification pkg: '' @ rest) = set success_message"
    by simp
  moreover have "CHR '':'' \<in> set (nm @ '' found but mismatch. Specification pkg: '' @ rest)"
    by simp
  ultimately have "CHR '':'' \<in> set success_message"
    by simp
  then show False by (simp add: success_message_def)
qed

lemma spec_entry_line_not_success:
  assumes "spec_entry_line MatchSpec I e = Some l"
  shows "l \<noteq> success_message"
proof (cases "MatchSpec e")
  case (Inl x)
  with assms show ?thesis by (simp add: spec_entry_line_def)
next
  case (Inr sp)
  show ?thesis
  proof (cases "I (spec_name sp)")
    case None
    with Inr assms have eq: "l = spec_name sp @ '' not found''"
      by (simp add: spec_entry_line_def spec_verdict_def)
    show ?thesis
      unfolding eq by (rule not_found_line_not_success)
  next
    case (Some r)
    with Inr assms have eq:
      "l = spec_name sp @ '' found but mismatch. Specification pkg: '' @
           (e @ '', Running pkg: '' @ name r @ ''=='' @ version r @ ''='' @ build r)"
      by (simp add: spec_entry_line_def spec_verdict_def split: if_splits)
    show ?thesis
      unfolding eq by (rule mismatch_line_not_success)
  qed
qed

lemma success_not_in_explanations:
  "success_message \<notin> set (spec_explanations MatchSpec I S)"
  by (induction S)
     (auto simp: spec_explanations_def dest: spec_entry_line_not_success split: option.splits)


section \<open>The claims about compare_packages\<close>

text \<open>
  C2, as stated: for every inventory and every specification list, an entry that parses to
  a name that is not a key of the inventory makes \<^verbatim>\<open>compare_packages\<close> return the outcome 1
  with the line \<^verbatim>\<open><name> not found\<close>. This fails on a list that also holds an entry the
  constructor rejects: \<^verbatim>\<open>flask\<close> is absent from the inventory, yet the call raises and
  returns nothing.
\<close>

theorem missing_entry_counterexample:
  "''flask'' \<in> set [''flask'', ''a=b=c=d'']
   \<and> \<not> isl (simple_MatchSpec ''flask'')
   \<and> example_inventory (spec_name (projr (simple_MatchSpec ''flask''))) = None
   \<and> compare_packages simple_MatchSpec example_inventory [''flask'', ''a=b=c=d''] =
       Inl (InvalidMatchSpec ''a=b=c=d'')"
  by (simp add: run_flask_malformed simple_MatchSpec_flask example_inventory_flask)

text \<open>
  C2, amended: for every inventory and every specification list whose entries all parse,
  an entry that parses to a name that is not a key of the inventory makes
  \<^verbatim>\<open>compare_packages\<close> return the outcome 1, and the output contains the line
  \<^verbatim>\<open><name> not found\<close>.
\<close>

theorem compare_packages_missing:
  assumes "well_formed MatchSpec S"
    and "e \<in> set S"
    and "MatchSpec e = Inr sp"
    and "I (spec_name sp) = None"
  shows "\<exists>out. compare_packages MatchSpec I S = Inr (1, out)
           \<and> spec_name sp @ '' not found'' \<in> set out"
proof -
  have "spec_entry_line MatchSpec I e = Some (spec_name sp @ '' not found'')"
    using assms(3,4) by (simp add: spec_entry_line_def spec_verdict_def)
  with assms(2) have "spec_name sp @ '' not found'' \<in> set (spec_explanations MatchSpec I S)"
    by (rule spec_entry_line_in_explanations)
  moreover from this have "spec_explanations MatchSpec I S \<noteq> []"
    by auto
  ultimately show ?thesis
    using assms(1) by (simp add: compare_packages_well_formed)
qed

theorem compare_packages_missing_witness:
  "\<exists>out. compare_packages simple_MatchSpec example_inventory [''numpy=1.2=0'', ''flask''] =
           Inr (1, out)
         \<and> ''flask not found'' \<in> set out"
  using compare_packages_missing [OF well_formed_examples(1) _ simple_MatchSpec_flask,
      of example_inventory]
  by (simp add: example_inventory_flask)

text \<open>
  C3, as stated: for every inventory and every specification list, an entry naming a
  present package whose record does not satisfy the entry's predicate makes
  \<^verbatim>\<open>compare_packages\<close> return the outcome 1 with a line holding the specification text and the
  installed \<^verbatim>\<open>name==version=build\<close>. This fails on a list that also holds an entry the
  constructor rejects: \<^verbatim>\<open>numpy=1.3=0\<close> does not match the installed \<^verbatim>\<open>numpy\<close>, yet the call
  raises and returns nothing.
\<close>

theorem mismatched_entry_counterexample:
  "''numpy=1.3=0'' \<in> set [''numpy=1.3=0'', ''a=b=c=d'']
   \<and> \<not> isl (simple_MatchSpec ''numpy=1.3=0'')
   \<and> example_inventory (spec_name (projr (simple_MatchSpec ''numpy=1.3=0''))) = Some numpy_record
   \<and> \<not> spec_match (projr (simple_MatchSpec ''numpy=1.3=0'')) numpy_record
   \<and> compare_packages simple_MatchSpec example_inventory [''numpy=1.3=0'', ''a=b=c=d''] =
       Inl (InvalidMatchSpec ''a=b=c=d'')"
  by (simp add: run_numpy13_malformed simple_MatchSpec_numpy13 example_inventory_numpy
        numpy_record_def field_matches_def)

text \<open>
  C3, amended: for every inventory and every specification list whose entries all parse,
  an entry that names a package present in the inventory whose record does not satisfy
  the entry's predicate makes \<^verbatim>\<open>compare_packages\<close> return the outcome 1, and the output
  contains a line that includes both the specification text of the entry and the
  installed record rendered as \<^verbatim>\<open>name==version=build\<close>.
\<close>

theorem compare_packages_mismatch:
  assumes "well_formed MatchSpec S"
    and "e \<in> set S"
    and "MatchSpec e = Inr sp"
    and "I (spec_name sp) = Some r"
    and "\<not> spec_match sp r"
  shows "\<exists>out line before between.
           compare_packages MatchSpec I S = Inr (1, out)
           \<and> line \<in> set out
           \<and> line = before @ e @ between @ name r @ ''=='' @ version r @ ''='' @ build r"
proof -
  let ?line = "mismatch_line (spec_name sp) e r"
  have "spec_entry_line MatchSpec I e = Some ?line"
    using assms(3,4,5) by (simp add: spec_entry_line_def spec_verdict_def mismatch_line_def)
  with assms(2) have mem: "?line \<in> set (spec_explanations MatchSpec I S)"
    by (rule spec_entry_line_in_explanations)
  then have "spec_explanations MatchSpec I S \<noteq> []"
    by auto
  with assms(1) have run:
    "compare_packages MatchSpec I S = Inr (1, spec_explanations MatchSpec I S)"
    by (simp add: compare_packages_well_formed)
  have shape: "?line = (spec_name sp @ '' found but mismatch. Specification pkg: '') @ e @
      '', Running pkg: '' @ name r @ ''=='' @ version r @ ''='' @ build r"
    by (simp add: mismatch_line_def)
  from run mem shape show ?thesis by blast
qed

theorem compare_packages_mismatch_witness:
  "\<exists>out line before between.
     compare_packages simple_MatchSpec example_inventory [''numpy=1.3=0'', ''flask''] =
       Inr (1, out)
     \<and> line \<in> set out
     \<and> line = before @ ''numpy=1.3=0'' @ between @ ''numpy'' @ ''=='' @ ''1.2'' @ ''='' @ ''0''"
  using compare_packages_mismatch [OF well_formed_examples(2) _ simple_MatchSpec_numpy13,
      of example_inventory numpy_record]
  by (simp add: example_inventory_numpy numpy_record_def field_matches_def)

text \<open>
  C4. On a list of well-formed entries a \<open>Missing\<close> or \<open>Mismatched\<close> verdict never aborts the
  run: \<^verbatim>\<open>compare_packages\<close> returns, every failing entry of the list has its explanation in
  the output wherever it stands, and when some entry fails the outcome code is 1 and the
  output is exactly the explanation lines, one per failing entry, the success line not
  among them.
\<close>

theorem compare_packages_soft_failures:
  assumes "well_formed MatchSpec S"
  shows "\<exists>code out.
           compare_packages MatchSpec I S = Inr (code, out)
           \<and> (\<forall>e \<in> set S. \<forall>l. spec_entry_line MatchSpec I e = Some l \<longrightarrow> l \<in> set out)
           \<and> ((\<exists>e \<in> set S. failing MatchSpec I e) \<longrightarrow>
                code = 1
                \<and> out = spec_explanations MatchSpec I S
                \<and> length out = length (filter (failing MatchSpec I) S)
                \<and> success_message \<notin> set out)"
proof (cases "spec_explanations MatchSpec I S = []")
  case True
  then have none: "\<forall>e \<in> set S. \<not> failing MatchSpec I e"
    by (simp add: spec_explanations_empty_iff)
  then have "\<forall>e \<in> set S. \<forall>l. spec_entry_line MatchSpec I e \<noteq> Some l"
    by (simp add: failing_def)
  with none True assms show ?thesis
    by (simp add: compare_packages_well_formed)
next
  case False
  with assms have "compare_packages MatchSpec I S = Inr (1, spec_explanations MatchSpec I S)"
    by (simp add: compare_packages_well_formed)
  then show ?thesis
    by (auto simp: length_spec_explanations success_not_in_explanations
          intro: spec_entry_line_in_explanations)
qed

theorem compare_packages_soft_failures_witness:
  "\<exists>code out.
     compare_packages simple_MatchSpec example_inventory [''numpy=1.3=0'', ''flask''] =
       Inr (code, out)
     \<and> code = 1 \<and> length out = 2 \<and> success_message \<notin> set out"
proof -
  have f: "failing simple_MatchSpec example_inventory ''flask''"
    by (simp add: failing_def spec_entry_line_def spec_verdict_def simple_MatchSpec_flask
          example_inventory_flask)
  have n: "failing simple_MatchSpec example_inventory ''numpy=1.3=0''"
    by (simp add: failing_def spec_entry_line_def spec_verdict_def simple_MatchSpec_numpy13
          example_inventory_numpy numpy_record_def field_matches_def)
  from compare_packages_soft_failures [OF well_formed_examples(2), of example_inventory]
  show ?thesis using f n by auto
qed

text \<open>
  C5. Whenever \<^verbatim>\<open>compare_packages\<close> returns, its output is the explanation lines of the
  failing entries in the order of the specification list (followed by the success line
  when the code is 0); the lines of a concatenated list are the lines of its first part
  followed by those of its second; and two listings of the same records with distinct
  names, in any order, build inventories on which \<^verbatim>\<open>compare_packages\<close> agrees.
\<close>

theorem compare_packages_order:
  "(compare_packages MatchSpec I S = Inr (code, out) \<longrightarrow>
      out = List.map_filter (spec_entry_line MatchSpec I) S
            @ (if code = 0 then [success_message] else []))
   \<and> spec_explanations MatchSpec I (S1 @ S2) =
       spec_explanations MatchSpec I S1 @ spec_explanations MatchSpec I S2
   \<and> (distinct (map name rs) \<and> distinct (map name rs') \<and> set rs = set rs' \<longrightarrow>
        compare_packages MatchSpec (active_pkgs_of rs) S =
        compare_packages MatchSpec (active_pkgs_of rs') S)"
proof (intro conjI impI)
  assume ret: "compare_packages MatchSpec I S = Inr (code, out)"
  then have "well_formed MatchSpec S"
    using compare_packages_returns_iff [of MatchSpec I S] by blast
  from compare_packages_well_formed [OF this, of I] ret
  show "out = List.map_filter (spec_entry_line MatchSpec I) S
          @ (if code = 0 then [success_message] else [])"
    by (auto simp: spec_explanations_def split: if_splits)
next
  show "spec_explanations MatchSpec I (S1 @ S2) =
      spec_explanations MatchSpec I S1 @ spec_explanations MatchSpec I S2"
    by (rule spec_explanations_append)
next
  assume "distinct (map name rs) \<and> distinct (map name rs') \<and> set rs = set rs'"
  then have "active_pkgs_of rs = active_pkgs_of rs'"
    by (simp add: active_pkgs_of_permuted)
  then show "compare_packages MatchSpec (active_pkgs_of rs) S =
      compare_packages MatchSpec (active_pkgs_of rs') S"
    by simp
qed

theorem compare_packages_order_witness:
  "compare_packages simple_MatchSpec example_inventory [''numpy=1.3=0'', ''flask''] =
     Inr (1, [''numpy found but mismatch. Specification pkg: numpy=1.3=0, Running pkg: numpy==1.2=0'',
              ''flask not found''])
   \<and> [''numpy found but mismatch. Specification pkg: numpy=1.3=0, Running pkg: numpy==1.2=0'',
       ''flask not found''] =
      List.map_filter (spec_entry_line simple_MatchSpec example_inventory)
        [''numpy=1.3=0'', ''flask'']
   \<and> compare_packages simple_MatchSpec (active_pkgs_of [numpy_record, requests_record])
        [''numpy=1.3=0'', ''flask''] =
      compare_packages simple_MatchSpec (active_pkgs_of [requests_record, numpy_record])
        [''numpy=1.3=0'', ''flask'']"
proof -
  have d: "distinct (map name [numpy_record, requests_record])
      \<and> distinct (map name [requests_record, numpy_record])
      \<and> set [numpy_record, requests_record] = set [requests_record, numpy_record]"
    by (auto simp: numpy_record_def requests_record_def)
  from compare_packages_order [of simple_MatchSpec example_inventory
      "[''numpy=1.3=0'', ''flask'']" 1 _ "[]" "[]" "[numpy_record, requests_record]"
      "[requests_record, numpy_record]"]
    run_numpy13_flask d
  show ?thesis by simp
qed

text \<open>
  C6, as stated: whichever malformed entry \<open>e\<close> a specification list holds,
  \<^verbatim>\<open>compare_packages\<close> fails with the parse error raised at \<open>e\<close>. This fails on a list with
  two malformed entries: \<^verbatim>\<open>e=f=g=h\<close> is malformed and in the list, yet the error raised is
  that of \<^verbatim>\<open>a=b=c=d\<close>, which stands before it, and \<^verbatim>\<open>e=f=g=h\<close> is never reached.
\<close>

theorem fail_fast_counterexample:
  "''e=f=g=h'' \<in> set [''a=b=c=d'', ''e=f=g=h'']
   \<and> simple_MatchSpec ''e=f=g=h'' = Inl (InvalidMatchSpec ''e=f=g=h'')
   \<and> compare_packages simple_MatchSpec example_inventory [''a=b=c=d'', ''e=f=g=h''] =
       Inl (InvalidMatchSpec ''a=b=c=d'')
   \<and> compare_packages simple_MatchSpec example_inventory [''a=b=c=d'', ''e=f=g=h''] \<noteq>
       Inl (InvalidMatchSpec ''e=f=g=h'')"
  by (simp add: compare_packages_def simple_MatchSpec_malformed simple_MatchSpec_def)

text \<open>
  C6, amended: a specification list that holds a malformed entry makes \<^verbatim>\<open>compare_packages\<close>
  fail fast with the parse error raised at the first malformed entry of the list. When
  the entries before \<open>e\<close> parse and \<open>e\<close> does not, the call raises the parse error of \<open>e\<close>,
  whatever follows \<open>e\<close> in the list, so no verdict is produced for \<open>e\<close> and nothing after it
  is processed; and a list that holds a malformed entry anywhere splits at its first
  malformed entry, raises the error of that entry and never yields a result.
\<close>

theorem compare_packages_fail_fast:
  assumes "MatchSpec e = Inl err"
  shows "(well_formed MatchSpec pre \<longrightarrow>
            compare_packages MatchSpec I (pre @ e # post) = Inl err)
         \<and> (e \<in> set S \<longrightarrow> isl (compare_packages MatchSpec I S))
         \<and> (e \<in> set S \<longrightarrow>
              (\<exists>pre' e' err' post'.
                 S = pre' @ e' # post' \<and> well_formed MatchSpec pre' \<and> MatchSpec e' = Inl err'
                 \<and> compare_packages MatchSpec I S = Inl err'))"
proof (intro conjI impI)
  assume "well_formed MatchSpec pre"
  then show "compare_packages MatchSpec I (pre @ e # post) = Inl err"
    using assms by (rule compare_packages_parse_error)
next
  assume mem: "e \<in> set S"
  from assms have "isl (MatchSpec e)"
    by simp
  with mem have "\<not> well_formed MatchSpec S"
    by (auto simp: well_formed_def)
  then have "\<not> (\<exists>res. compare_packages MatchSpec I S = Inr res)"
    using compare_packages_returns_iff [of MatchSpec I S] by blast
  then show "isl (compare_packages MatchSpec I S)"
    by (cases "compare_packages MatchSpec I S") auto
next
  assume mem: "e \<in> set S"
  from assms have "isl (MatchSpec e)"
    by simp
  with mem have "\<not> well_formed MatchSpec S"
    by (auto simp: well_formed_def)
  from first_malformed [OF this] obtain pre' e' err' post' where
    split: "S = pre' @ e' # post'" "well_formed MatchSpec pre'" "MatchSpec e' = Inl err'"
    by blast
  then have "compare_packages MatchSpec I S = Inl err'"
    by (simp add: compare_packages_parse_error)
  with split show "\<exists>pre' e' err' post'.
      S = pre' @ e' # post' \<and> well_formed MatchSpec pre' \<and> MatchSpec e' = Inl err'
      \<and> compare_packages MatchSpec I S = Inl err'"
    by blast
qed

theorem compare_packages_fail_fast_witness:
  "compare_packages simple_MatchSpec example_inventory
     ([''numpy=1.3=0'', ''flask''] @ ''a=b=c=d'' # [''numpy=1.2=0'']) =
     Inl (InvalidMatchSpec ''a=b=c=d'')
   \<and> isl (compare_packages simple_MatchSpec example_inventory [''flask'', ''a=b=c=d''])"
  using compare_packages_fail_fast [of simple_MatchSpec "''a=b=c=d''"
      "InvalidMatchSpec ''a=b=c=d''" "[''numpy=1.3=0'', ''flask'']" example_inventory
      "[''numpy=1.2=0'']" "[''flask'', ''a=b=c=d'']"]
    simple_MatchSpec_malformed well_formed_examples(2)
  by simp

text \<open>
  C9. On the empty specification list \<^verbatim>\<open>compare_packages\<close> returns the outcome code 0 and
  an output that is exactly the success line. The output is never empty: the call returns
  on every list of well-formed entries, and whenever it returns the output holds a line.
\<close>

theorem compare_packages_empty:
  "compare_packages MatchSpec I [] = Inr (0, [success_message])
   \<and> (well_formed MatchSpec S \<longrightarrow>
        (\<exists>code out. compare_packages MatchSpec I S = Inr (code, out) \<and> out \<noteq> []))
   \<and> (compare_packages MatchSpec I S = Inr (code', out') \<longrightarrow> out' \<noteq> [])"
proof (intro conjI impI)
  show "compare_packages MatchSpec I [] = Inr (0, [success_message])"
    by (simp add: compare_packages_def)
next
  assume "well_formed MatchSpec S"
  then show "\<exists>code out. compare_packages MatchSpec I S = Inr (code, out) \<and> out \<noteq> []"
    by (simp add: compare_packages_well_formed)
next
  assume ret: "compare_packages MatchSpec I S = Inr (code', out')"
  then have "well_formed MatchSpec S"
    using compare_packages_returns_iff [of MatchSpec I S] by blast
  from compare_packages_well_formed [OF this, of I] ret
  show "out' \<noteq> []"
    by (auto split: if_splits)
qed

theorem compare_packages_empty_witness:
  "compare_packages simple_MatchSpec example_inventory [] = Inr (0, [success_message])
   \<and> (\<exists>code out.
        compare_packages simple_MatchSpec example_inventory [''numpy=1.2=0'', ''flask''] =
          Inr (code, out) \<and> out \<noteq> [])
   \<and> [''flask not found''] \<noteq> []"
  using compare_packages_empty [of simple_MatchSpec example_inventory
      "[''numpy=1.2=0'', ''flask'']" 1 "[''flask not found'']"]
    well_formed_examples(1) run_numpy_flask
  by simp

section \<open>Properties of display_table\<close>

lemma startswith_marker: "startswith line [m] \<longleftrightarrow> (\<exists>rest. line = m # rest)"
  by (cases line) (simp_all add: startswith_def)

lemma display_rows_spec:
  "display_rows lines out = out @ map render_row (spec_rows lines)"
proof (induction lines arbitrary: out)
  case Nil
  then show ?case by (simp add: spec_rows_def)
next
  case (Cons line lines)
  show ?case
  proof (cases line)
    case Nil
    with Cons.IH show ?thesis
      by (simp add: spec_rows_def spec_row_def startswith_def)
  next
    case (Cons c rest)
    with Cons.IH show ?thesis
      by (simp add: spec_rows_def spec_row_def startswith_def present_absent_row_def
            absent_present_row_def)
  qed
qed

lemma splitlines_example:
  "splitlines example_diff = [''1c1'', ''< foo-1.0'', ''---'', ''> foo-1.0'']"
  by (simp add: splitlines_def example_diff_def is_linebreak_def)

lemma display_table_spec:
  "display_table diff_output env1 env2 out =
     out @ header env1 env2 @ map render_row (spec_rows (splitlines diff_output))"
  by (simp add: display_table_def header_def display_rows_spec)

lemma spec_rows_append: "spec_rows (lines1 @ lines2) = spec_rows lines1 @ spec_rows lines2"
  by (simp add: spec_rows_def List.map_filter_def)

lemma spec_row_marked: "spec_row line \<noteq> None \<longleftrightarrow> marked line"
  by (cases line) (simp_all add: spec_row_def marked_def startswith_def)

lemma length_spec_rows: "length (spec_rows lines) = length (filter marked lines)"
  by (induction lines)
     (simp_all add: spec_rows_def spec_row_marked [symmetric] split: option.split)

lemma spec_rows_single:
  "spec_rows [CHR ''<'' # rest] = [(drop 1 rest, Present, Absent)]"
  "spec_rows [CHR ''>'' # rest] = [(drop 1 rest, Absent, Present)]"
  by (simp_all add: spec_rows_def spec_row_def)

text \<open>
  C7. \<^verbatim>\<open>display_table\<close> prints its three header lines and then, for the lines of the diff
  text in their order, one row per marked line and nothing for any other line: a line
  starting with \<^verbatim>\<open><\<close> prints exactly one row, of the line less its first two characters,
  present in the first and absent in the second environment; a line starting with \<^verbatim>\<open>>\<close>
  prints exactly one row absent in the first and present in the second; the number of rows
  is the number of marked lines, so nothing is merged, and a \<^verbatim>\<open><\<close> line and a \<^verbatim>\<open>>\<close> line for
  the same package give two rows.
\<close>

theorem display_table_rows:
  "display_table diff_output env1 env2 out =
     out @ header env1 env2 @ map render_row (List.map_filter spec_row (splitlines diff_output))
   \<and> (startswith line ''<'' \<longrightarrow>
        display_rows [line] out = out @ [render_row (drop 2 line, Present, Absent)])
   \<and> (startswith line ''>'' \<longrightarrow>
        display_rows [line] out = out @ [render_row (drop 2 line, Absent, Present)])
   \<and> (\<not> startswith line ''<'' \<and> \<not> startswith line ''>'' \<longrightarrow> display_rows [line] out = out)
   \<and> length (spec_rows lines) = length (filter marked lines)
   \<and> spec_rows (lines1 @ [CHR ''<'' # m # package] @ lines2 @ [CHR ''>'' # m' # package] @ lines3) =
       spec_rows lines1 @ [(package, Present, Absent)] @ spec_rows lines2 @
       [(package, Absent, Present)] @ spec_rows lines3"
proof (intro conjI impI)
  show "display_table diff_output env1 env2 out =
      out @ header env1 env2 @ map render_row (List.map_filter spec_row (splitlines diff_output))"
    by (simp add: display_table_spec spec_rows_def)
next
  assume "startswith line ''<''"
  then obtain rest where "line = CHR ''<'' # rest"
    by (auto simp: startswith_marker)
  then show "display_rows [line] out = out @ [render_row (drop 2 line, Present, Absent)]"
    by (simp add: display_rows_spec spec_rows_single)
next
  assume "startswith line ''>''"
  then obtain rest where "line = CHR ''>'' # rest"
    by (auto simp: startswith_marker)
  then show "display_rows [line] out = out @ [render_row (drop 2 line, Absent, Present)]"
    by (simp add: display_rows_spec spec_rows_single)
next
  assume "\<not> startswith line ''<'' \<and> \<not> startswith line ''>''"
  then show "display_rows [line] out = out"
    by simp
next
  show "length (spec_rows lines) = length (filter marked lines)"
    by (rule length_spec_rows)
next
  show "spec_rows (lines1 @ [CHR ''<'' # m # package] @ lines2 @ [CHR ''>'' # m' # package] @ lines3) =
      spec_rows lines1 @ [(package, Present, Absent)] @ spec_rows lines2 @
      [(package, Absent, Present)] @ spec_rows lines3"
    by (simp only: spec_rows_append spec_rows_single drop_Suc_Cons drop_0 One_nat_def)
qed

theorem display_table_rows_witness:
  "display_table example_diff ''envA'' ''envB'' [] =
     header ''envA'' ''envB'' @
     [render_row (''foo-1.0'', Present, Absent), render_row (''foo-1.0'', Absent, Present)]
   \<and> display_rows [''< foo-1.0''] [] = [render_row (''foo-1.0'', Present, Absent)]
   \<and> display_rows [''> bar-2.0''] [] = [render_row (''bar-2.0'', Absent, Present)]
   \<and> display_rows [''1c1''] [] = []"
proof -
  have rows: "List.map_filter spec_row [''1c1'', ''< foo-1.0'', ''---'', ''> foo-1.0''] =
      [(''foo-1.0'', Present, Absent), (''foo-1.0'', Absent, Present)]"
    by (simp add: spec_row_def)
  have s: "startswith ''< foo-1.0'' ''<''" "startswith ''> bar-2.0'' ''>''"
    "\<not> startswith ''1c1'' ''<'' \<and> \<not> startswith ''1c1'' ''>''"
    by (simp_all add: startswith_def)
  from display_table_rows [of example_diff "''envA''" "''envB''" "[]" "''< foo-1.0''"]
  have a: "display_table example_diff ''envA'' ''envB'' [] =
      header ''envA'' ''envB'' @
      [render_row (''foo-1.0'', Present, Absent), render_row (''foo-1.0'', Absent, Present)]"
    and b: "display_rows [''< foo-1.0''] [] = [render_row (''foo-1.0'', Present, Absent)]"
    using s(1) by (simp_all only: splitlines_example rows append_Nil list.map drop_Suc_Cons
        drop_0 numeral_2_eq_2 simp_thms)
  from display_table_rows [of _ _ _ "[]" "''> bar-2.0''"]
  have c: "display_rows [''> bar-2.0''] [] = [render_row (''bar-2.0'', Absent, Present)]"
    using s(2) by (simp only: append_Nil drop_Suc_Cons drop_0 numeral_2_eq_2 simp_thms)
  from display_table_rows [of _ _ _ "[]" "''1c1''"] s(3)
  have d: "display_rows [''1c1''] [] = []"
    by blast
  from a b c d show ?thesis by blast
qed

lemma splitlines_from_no_break:
  "\<forall>ch \<in> set s. \<not> is_linebreak ch \<Longrightarrow>
     splitlines_from cur s = (if cur @ s = [] then [] else [cur @ s])"
  by (induction cur s rule: splitlines_from.induct) (auto simp: is_linebreak_def)

lemma splitlines_single_line:
  "\<forall>ch \<in> set rest. \<not> is_linebreak ch \<Longrightarrow> \<not> is_linebreak m \<Longrightarrow>
     splitlines (m # rest) = [m # rest]"
  using splitlines_from_no_break [of "m # rest" "[]"] by (simp add: splitlines_def)

text \<open>
  C10. The loop of \<^verbatim>\<open>display_table\<close> looks at the first character of a line only and then
  drops the first two characters whatever they are. A line whose first character is \<^verbatim>\<open><\<close>
  or \<^verbatim>\<open>>\<close> prints exactly one row: the colour sequence, the line less its first two
  characters as the package field, filled with blanks to 40 characters, then the two
  presence fields and the reset sequence. This is so also when the second character is not
  a blank and when the line is the marker alone, in which case the package field is
  empty. A line with any other first character, and the empty line, print nothing. A diff
  text of one marked line makes \<^verbatim>\<open>display_table\<close> print the header and that row.
\<close>

theorem display_rows_first_character:
  "display_rows [CHR ''<'' # rest] out =
     out @ [CHR 0x1B # ''[41m'' @ drop 1 rest @ replicate (40 - length (drop 1 rest)) CHR '' '' @
            '' Present'' @ replicate 13 CHR '' '' @ '' Absent'' @ replicate 14 CHR '' '' @
            CHR 0x1B # ''[0m'']
   \<and> display_rows [CHR ''>'' # rest] out =
     out @ [CHR 0x1B # ''[44m'' @ drop 1 rest @ replicate (40 - length (drop 1 rest)) CHR '' '' @
            '' Absent'' @ replicate 14 CHR '' '' @ '' Present'' @ replicate 13 CHR '' '' @
            CHR 0x1B # ''[0m'']
   \<and> display_rows [''<''] out =
     out @ [CHR 0x1B # ''[41m'' @ replicate 40 CHR '' '' @
            '' Present'' @ replicate 13 CHR '' '' @ '' Absent'' @ replicate 14 CHR '' '' @
            CHR 0x1B # ''[0m'']
   \<and> display_rows [''>''] out =
     out @ [CHR 0x1B # ''[44m'' @ replicate 40 CHR '' '' @
            '' Absent'' @ replicate 14 CHR '' '' @ '' Present'' @ replicate 13 CHR '' '' @
            CHR 0x1B # ''[0m'']
   \<and> display_rows [CHR ''<'' # c # package] out =
     out @ [CHR 0x1B # ''[41m'' @ package @ replicate (40 - length package) CHR '' '' @
            '' Present'' @ replicate 13 CHR '' '' @ '' Absent'' @ replicate 14 CHR '' '' @
            CHR 0x1B # ''[0m'']
   \<and> display_rows [CHR ''>'' # c # package] out =
     out @ [CHR 0x1B # ''[44m'' @ package @ replicate (40 - length package) CHR '' '' @
            '' Absent'' @ replicate 14 CHR '' '' @ '' Present'' @ replicate 13 CHR '' '' @
            CHR 0x1B # ''[0m'']
   \<and> (c \<noteq> CHR ''<'' \<and> c \<noteq> CHR ''>'' \<longrightarrow> display_rows [c # rest] out = out)
   \<and> display_rows [[]] out = out
   \<and> ((\<forall>ch \<in> set rest. \<not> is_linebreak ch) \<longrightarrow>
        display_table (CHR ''<'' # rest) env1 env2 out =
          out @ header env1 env2 @
          [CHR 0x1B # ''[41m'' @ drop 1 rest @ replicate (40 - length (drop 1 rest)) CHR '' '' @
           '' Present'' @ replicate 13 CHR '' '' @ '' Absent'' @ replicate 14 CHR '' '' @
           CHR 0x1B # ''[0m'']
        \<and> display_table (CHR ''>'' # rest) env1 env2 out =
          out @ header env1 env2 @
          [CHR 0x1B # ''[44m'' @ drop 1 rest @ replicate (40 - length (drop 1 rest)) CHR '' '' @
           '' Absent'' @ replicate 14 CHR '' '' @ '' Present'' @ replicate 13 CHR '' '' @
           CHR 0x1B # ''[0m''])"
proof -
  have pa: "present_absent_row p =
      CHR 0x1B # ''[41m'' @ p @ replicate (40 - length p) CHR '' '' @
      '' Present'' @ replicate 13 CHR '' '' @ '' Absent'' @ replicate 14 CHR '' '' @
      CHR 0x1B # ''[0m''" for p
    by (simp add: present_absent_row_def ljust_def esc_def)
  have ap: "absent_present_row p =
      CHR 0x1B # ''[44m'' @ p @ replicate (40 - length p) CHR '' '' @
      '' Absent'' @ replicate 14 CHR '' '' @ '' Present'' @ replicate 13 CHR '' '' @
      CHR 0x1B # ''[0m''" for p
    by (simp add: absent_present_row_def ljust_def esc_def)
  have loop_lt: "display_rows [CHR ''<'' # r] out = out @ [present_absent_row (drop 1 r)]"
    and loop_gt: "display_rows [CHR ''>'' # r] out = out @ [absent_present_row (drop 1 r)]" for r
    by (simp_all add: startswith_def)
  have other:
    "c \<noteq> CHR ''<'' \<and> c \<noteq> CHR ''>'' \<longrightarrow> display_rows [c # rest] out = out"
    "display_rows [[]] out = out"
    by (simp_all add: startswith_def)
  have table:
    "display_table (CHR ''<'' # rest) env1 env2 out =
       out @ header env1 env2 @ [present_absent_row (drop 1 rest)]
     \<and> display_table (CHR ''>'' # rest) env1 env2 out =
       out @ header env1 env2 @ [absent_present_row (drop 1 rest)]"
    if nb: "\<forall>ch \<in> set rest. \<not> is_linebreak ch"
  proof -
    have m: "\<not> is_linebreak CHR ''<''" "\<not> is_linebreak CHR ''>''"
      by (simp_all add: is_linebreak_def)
    have "splitlines (CHR ''<'' # rest) = [CHR ''<'' # rest]"
      and "splitlines (CHR ''>'' # rest) = [CHR ''>'' # rest]"
      using nb m by (simp_all add: splitlines_single_line)
    then show ?thesis
      by (simp add: display_table_spec spec_rows_single present_absent_row_def
            absent_present_row_def)
  qed
  have r1: "display_rows [CHR ''<'' # rest] out =
     out @ [CHR 0x1B # ''[41m'' @ drop 1 rest @ replicate (40 - length (drop 1 rest)) CHR '' '' @
            '' Present'' @ replicate 13 CHR '' '' @ '' Absent'' @ replicate 14 CHR '' '' @
            CHR 0x1B # ''[0m'']"
    unfolding loop_lt pa ..
  have r2: "display_rows [CHR ''>'' # rest] out =
     out @ [CHR 0x1B # ''[44m'' @ drop 1 rest @ replicate (40 - length (drop 1 rest)) CHR '' '' @
            '' Absent'' @ replicate 14 CHR '' '' @ '' Present'' @ replicate 13 CHR '' '' @
            CHR 0x1B # ''[0m'']"
    unfolding loop_gt ap ..
  have r3: "display_rows [''<''] out =
     out @ [CHR 0x1B # ''[41m'' @ replicate 40 CHR '' '' @
            '' Present'' @ replicate 13 CHR '' '' @ '' Absent'' @ replicate 14 CHR '' '' @
            CHR 0x1B # ''[0m'']"
    using loop_lt [of "[]"] pa [of "[]"] by simp
  have r4: "display_rows [''>''] out =
     out @ [CHR 0x1B # ''[44m'' @ replicate 40 CHR '' '' @
            '' Absent'' @ replicate 14 CHR '' '' @ '' Present'' @ replicate 13 CHR '' '' @
            CHR 0x1B # ''[0m'']"
    using loop_gt [of "[]"] ap [of "[]"] by simp
  have r5: "display_rows [CHR ''<'' # c # package] out =
     out @ [CHR 0x1B # ''[41m'' @ package @ replicate (40 - length package) CHR '' '' @
            '' Present'' @ replicate 13 CHR '' '' @ '' Absent'' @ replicate 14 CHR '' '' @
            CHR 0x1B # ''[0m'']"
    using loop_lt [of "c # package"] pa [of package] by simp
  have r6: "display_rows [CHR ''>'' # c # package] out =
     out @ [CHR 0x1B # ''[44m'' @ package @ replicate (40 - length package) CHR '' '' @
            '' Absent'' @ replicate 14 CHR '' '' @ '' Present'' @ replicate 13 CHR '' '' @
            CHR 0x1B # ''[0m'']"
    using loop_gt [of "c # package"] ap [of package] by simp
  have r9: "(\<forall>ch \<in> set rest. \<not> is_linebreak ch) \<longrightarrow>
        display_table (CHR ''<'' # rest) env1 env2 out =
          out @ header env1 env2 @
          [CHR 0x1B # ''[41m'' @ drop 1 rest @ replicate (40 - length (drop 1 rest)) CHR '' '' @
           '' Present'' @ replicate 13 CHR '' '' @ '' Absent'' @ replicate 14 CHR '' '' @
           CHR 0x1B # ''[0m'']
        \<and> display_table (CHR ''>'' # rest) env1 env2 out =
          out @ header env1 env2 @
          [CHR 0x1B # ''[44m'' @ drop 1 rest @ replicate (40 - length (drop 1 rest)) CHR '' '' @
           '' Absent'' @ replicate 14 CHR '' '' @ '' Present'' @ replicate 13 CHR '' '' @
           CHR 0x1B # ''[0m'']"
    using table unfolding pa ap by blast
  from r1 r2 r3 r4 r5 r6 other r9 show ?thesis
    by (intro conjI)
qed

theorem display_rows_first_character_witness:
  "display_rows [''<foo''] [] =
     [CHR 0x1B # ''[41m'' @ ''oo'' @ replicate 38 CHR '' '' @
      '' Present'' @ replicate 13 CHR '' '' @ '' Absent'' @ replicate 14 CHR '' '' @
      CHR 0x1B # ''[0m'']
   \<and> display_rows [''>''] [] =
     [CHR 0x1B # ''[44m'' @ replicate 40 CHR '' '' @
      '' Absent'' @ replicate 14 CHR '' '' @ '' Present'' @ replicate 13 CHR '' '' @
      CHR 0x1B # ''[0m'']
   \<and> display_rows ['' < foo''] [] = []
   \<and> display_table ''>foo'' ''envA'' ''envB'' [] =
       header ''envA'' ''envB'' @
       [CHR 0x1B # ''[44m'' @ ''oo'' @ replicate 38 CHR '' '' @
        '' Absent'' @ replicate 14 CHR '' '' @ '' Present'' @ replicate 13 CHR '' '' @
        CHR 0x1B # ''[0m'']"
proof -
  have nb: "\<forall>ch \<in> set ''foo''. \<not> is_linebreak ch"
    by (simp add: is_linebreak_def)
  have sp: "CHR '' '' \<noteq> CHR ''<'' \<and> CHR '' '' \<noteq> CHR ''>''"
    by simp
  note t = display_rows_first_character [of "''foo''" "[]" "CHR ''f''" "''oo''" "''envA''" "''envB''"]
  from t have a: "display_rows [''<foo''] [] =
     [CHR 0x1B # ''[41m'' @ ''oo'' @ replicate 38 CHR '' '' @
      '' Present'' @ replicate 13 CHR '' '' @ '' Absent'' @ replicate 14 CHR '' '' @
      CHR 0x1B # ''[0m'']"
    by simp
  from t have b: "display_rows [''>''] [] =
     [CHR 0x1B # ''[44m'' @ replicate 40 CHR '' '' @
      '' Absent'' @ replicate 14 CHR '' '' @ '' Present'' @ replicate 13 CHR '' '' @
      CHR 0x1B # ''[0m'']"
    by simp
  from t nb have c: "display_table ''>foo'' ''envA'' ''envB'' [] =
       header ''envA'' ''envB'' @
       [CHR 0x1B # ''[44m'' @ ''oo'' @ replicate 38 CHR '' '' @
        '' Absent'' @ replicate 14 CHR '' '' @ '' Present'' @ replicate 13 CHR '' '' @
        CHR 0x1B # ''[0m'']"
    by simp
  from display_rows_first_character [of "''< foo''" "[]" "CHR '' ''" "''oo''"] sp
  have d: "display_rows ['' < foo''] [] = []"
    by blast
  from a b c d show ?thesis by (intro conjI)
qed

section \<open>Properties of compare_envs\<close>

lemma compare_envs_success_cleans_up:
  assumes "compare_envs h env1 env2 w = (Inr (), w')"
  shows "files w' ''env1_packages.txt'' = None \<and> files w' ''env2_packages.txt'' = None"
  using assms
  by (auto simp: compare_envs_def check_diff_installed_def os_remove_def Let_def
        split: if_splits sum.splits)

lemma compare_envs_plain_host:
  "fst (compare_envs plain_host ''envA'' ''envB'' empty_world) = Inr ()
   \<and> files (snd (compare_envs plain_host ''envA'' ''envB'' empty_world)) = Map.empty"
  by (simp add: compare_envs_def check_diff_installed_def os_remove_def plain_host_def
        undecodable_host_def empty_world_def Let_def)

text \<open>
  C8 says that the two temporary files are removed on every path of \<^verbatim>\<open>compare_envs\<close>, also
  when the diff step or the rendering raises. The function removes them only after
  \<^verbatim>\<open>display_table\<close> has returned: when the diff step raises, the call ends with that
  exception and both files are still in the working directory.
\<close>

theorem compare_envs_leaves_files:
  "fst (compare_envs undecodable_host ''envA'' ''envB'' empty_world) = Inl UnicodeDecodeError
   \<and> files (snd (compare_envs undecodable_host ''envA'' ''envB'' empty_world))
       ''env1_packages.txt'' = Some ''foo 1.0''
   \<and> files (snd (compare_envs undecodable_host ''envA'' ''envB'' empty_world))
       ''env2_packages.txt'' = Some ''bar 2.0''"
  by (simp add: compare_envs_def check_diff_installed_def undecodable_host_def
        empty_world_def Let_def)


end
